theory Spec2Isabelle
  imports Complex_Main
begin

section \<open>SimpleImageModal: a shallow embedding of \<^verbatim>\<open>src/simple-image-modal.js\<close>\<close>

text \<open>
  The class \<^verbatim>\<open>SimpleImageModal\<close> is modelled by explicit state passing. One record
  holds the fields of the instance, the style properties of the DOM elements the
  instance writes, the listeners that \<^verbatim>\<open>bindEvents\<close> registered, and the pending
  \<^verbatim>\<open>setTimeout\<close> callbacks together with a clock in milliseconds.

  JavaScript numbers are modelled as reals: the values are finite and no rounding is
  modelled. Delays are natural numbers of milliseconds.
\<close>

subsection \<open>Options\<close>

record options =
  selector :: string
  excludeSelector :: "string option"
  modalClass :: string
  modalContentClass :: string
  closeButtonClass :: string
  captionClass :: string
  animationDuration :: nat
  closeOnClick :: bool
  closeOnEsc :: bool
  showCaption :: bool
  enableZoom :: bool
  maxZoom :: real

text \<open>
  An options object passed by the caller is a list of key/value pairs, in the order of
  its keys. The object spread \<^verbatim>\<open>{ ...defaults, ...options }\<close> assigns them one after
  the other, so the last value of a key wins.
\<close>

datatype setting =
    Selector string
  | ExcludeSelector "string option"
  | ModalClass string
  | ModalContentClass string
  | CloseButtonClass string
  | CaptionClass string
  | AnimationDuration nat
  | CloseOnClick bool
  | CloseOnEsc bool
  | ShowCaption bool
  | EnableZoom bool
  | MaxZoom real

fun assign :: "setting \<Rightarrow> options \<Rightarrow> options" where
  "assign (Selector v) opts = opts\<lparr>selector := v\<rparr>"
| "assign (ExcludeSelector v) opts = opts\<lparr>excludeSelector := v\<rparr>"
| "assign (ModalClass v) opts = opts\<lparr>modalClass := v\<rparr>"
| "assign (ModalContentClass v) opts = opts\<lparr>modalContentClass := v\<rparr>"
| "assign (CloseButtonClass v) opts = opts\<lparr>closeButtonClass := v\<rparr>"
| "assign (CaptionClass v) opts = opts\<lparr>captionClass := v\<rparr>"
| "assign (AnimationDuration v) opts = opts\<lparr>animationDuration := v\<rparr>"
| "assign (CloseOnClick v) opts = opts\<lparr>closeOnClick := v\<rparr>"
| "assign (CloseOnEsc v) opts = opts\<lparr>closeOnEsc := v\<rparr>"
| "assign (ShowCaption v) opts = opts\<lparr>showCaption := v\<rparr>"
| "assign (EnableZoom v) opts = opts\<lparr>enableZoom := v\<rparr>"
| "assign (MaxZoom v) opts = opts\<lparr>maxZoom := v\<rparr>"

definition spread :: "options \<Rightarrow> setting list \<Rightarrow> options" where
  "spread opts overrides = fold assign overrides opts"

definition defaults :: options where
  "defaults =
     \<lparr> selector = ''img'',
       excludeSelector = None,
       modalClass = ''simple-image-modal'',
       modalContentClass = ''simple-image-modal-content'',
       closeButtonClass = ''simple-image-modal-close'',
       captionClass = ''simple-image-modal-caption'',
       animationDuration = 300,
       closeOnClick = True,
       closeOnEsc = True,
       showCaption = True,
       enableZoom = True,
       maxZoom = 3 \<rparr>"

subsection \<open>The instance and its surroundings\<close>

text \<open>An image element, as far as \<^verbatim>\<open>open\<close> reads it; an absent attribute is \<open>None\<close>.\<close>

record image =
  src :: string
  alt :: "string option"
  title :: "string option"

datatype display = DisplayUnset | DisplayNone | DisplayFlex | DisplayBlock

datatype cursor = Grab | Grabbing | Pointer

text \<open>The two callbacks the class hands to \<^verbatim>\<open>setTimeout\<close>: the one of \<^verbatim>\<open>open\<close> and the one of \<^verbatim>\<open>close\<close>.\<close>

datatype callback = FadeIn | HideAndReset

record widget =
  options :: options
  currentImage :: "image option"
  scale :: real
  isDragging :: bool
  startX :: real
  startY :: real
  translateX :: real
  translateY :: real
  \<comment> \<open>style and content of \<^verbatim>\<open>this.modal\<close>, \<^verbatim>\<open>this.modalImg\<close>, \<^verbatim>\<open>this.modalCaption\<close>, \<^verbatim>\<open>document.body\<close>\<close>
  modal_display :: display
  modal_opacity :: nat
  modal_attached :: bool
  modalImg_src :: string
  modalImg_cursor :: cursor
  modalImg_transform :: "(real \<times> real \<times> real) option"
  modalCaption_text :: string
  modalCaption_display :: display
  body_overflow :: string
  \<comment> \<open>which of the optional listeners \<^verbatim>\<open>bindEvents\<close> registered\<close>
  overlay_listener :: bool
  escape_listener :: bool
  zoom_listeners :: bool
  \<comment> \<open>the timer queue of the page: due time and callback, in the order of the calls\<close>
  clock :: nat
  timers :: "(nat \<times> callback) list"

definition setTimeout :: "callback \<Rightarrow> nat \<Rightarrow> widget \<Rightarrow> widget" where
  "setTimeout cb delay s = s\<lparr>timers := timers s @ [(clock s + delay, cb)]\<rparr>"

subsection \<open>Methods\<close>

definition updateImageTransform :: "widget \<Rightarrow> widget" where
  "updateImageTransform s =
     s\<lparr>modalImg_transform := Some (translateX s, translateY s, scale s)\<rparr>"

definition resetZoom :: "widget \<Rightarrow> widget" where
  "resetZoom s = updateImageTransform (s\<lparr>scale := 1, translateX := 0, translateY := 0\<rparr>)"

definition zoom :: "real \<Rightarrow> widget \<Rightarrow> widget" where
  "zoom delta s =
     (if \<not> enableZoom (options s) then s
      else
        let s1 = s\<lparr>scale := min (maxZoom (options s)) (max 1 (scale s + delta))\<rparr>;
            s2 = (if scale s1 = 1 then s1\<lparr>translateX := 0, translateY := 0\<rparr> else s1)
        in updateImageTransform s2)"

text \<open>\<^verbatim>\<open>img.getAttribute('alt') || img.getAttribute('title') || ''\<close>: the empty string is falsy.\<close>

definition caption_of :: "image \<Rightarrow> string" where
  "caption_of img =
     (let fallback = (case title img of Some t \<Rightarrow> t | None \<Rightarrow> [])
      in case alt img of
           Some a \<Rightarrow> (if a \<noteq> [] then a else fallback)
         | None \<Rightarrow> fallback)"

definition "open" :: "image \<Rightarrow> widget \<Rightarrow> widget" where
  "open img s =
     (let s1 = s\<lparr>currentImage := Some img, modalImg_src := src img\<rparr>;
          s2 = (if showCaption (options s1)
                then s1\<lparr>modalCaption_text := caption_of img,
                        modalCaption_display :=
                          (if caption_of img \<noteq> [] then DisplayBlock else DisplayNone)\<rparr>
                else s1);
          s3 = s2\<lparr>modal_display := DisplayFlex\<rparr>;
          s4 = setTimeout FadeIn 10 s3
      in s4\<lparr>body_overflow := ''hidden''\<rparr>)"

definition close :: "widget \<Rightarrow> widget" where
  "close s =
     setTimeout HideAndReset (animationDuration (options s)) (s\<lparr>modal_opacity := 0\<rparr>)"

definition isOpen :: "widget \<Rightarrow> bool" where
  "isOpen s = (modal_display s = DisplayFlex)"

definition updateOptions :: "setting list \<Rightarrow> widget \<Rightarrow> widget" where
  "updateOptions overrides s = s\<lparr>options := spread (options s) overrides\<rparr>"

definition destroy :: "widget \<Rightarrow> widget" where
  "destroy s =
     (let s1 = (if modal_attached s then s\<lparr>modal_attached := False\<rparr> else s)
      in s1\<lparr>body_overflow := []\<rparr>)"

text \<open>
  \<^verbatim>\<open>isExcluded\<close>: whether the image matches the exclusion selector is decided by the DOM
  and is given here as \<open>matches\<close>; a missing or empty selector excludes nothing.
\<close>

definition isExcluded :: "bool \<Rightarrow> widget \<Rightarrow> bool" where
  "isExcluded matches s =
     (case excludeSelector (options s) of
        None \<Rightarrow> False
      | Some sel \<Rightarrow> (if sel = [] then False else matches))"

subsection \<open>Timer callbacks and the passing of time\<close>

fun run_callback :: "callback \<Rightarrow> widget \<Rightarrow> widget" where
  "run_callback FadeIn s = s\<lparr>modal_opacity := 1\<rparr>"
| "run_callback HideAndReset s =
     resetZoom (s\<lparr>modal_display := DisplayNone, body_overflow := []\<rparr>)"

text \<open>
  \<open>elapse dt\<close> lets \<open>dt\<close> milliseconds pass with no other event: the timers that are due
  by then run, earliest first, timers due at the same time in the order they were set.
\<close>

definition elapse :: "nat \<Rightarrow> widget \<Rightarrow> widget" where
  "elapse dt s =
     (let t = clock s + dt;
          due = filter (\<lambda>p. fst p \<le> t) (timers s);
          rest = filter (\<lambda>p. \<not> fst p \<le> t) (timers s)
      in fold run_callback (map snd (sort_key fst due)) (s\<lparr>clock := t, timers := rest\<rparr>))"

subsection \<open>Construction\<close>

definition createModal :: "widget \<Rightarrow> widget" where
  "createModal s =
     s\<lparr>modal_display := DisplayNone,
       modal_opacity := 0,
       modalImg_cursor := (if enableZoom (options s) then Grab else Pointer),
       modal_attached := True\<rparr>"

definition bindEvents :: "widget \<Rightarrow> widget" where
  "bindEvents s =
     s\<lparr>overlay_listener := closeOnClick (options s),
       escape_listener := closeOnEsc (options s),
       zoom_listeners := enableZoom (options s)\<rparr>"

definition init :: "widget \<Rightarrow> widget" where
  "init s = bindEvents (createModal s)"

text \<open>
  \<open>constructor overrides\<close> is \<^verbatim>\<open>new SimpleImageModal(overrides)\<close> on a page whose body has no
  inline overflow, at time 0. The fields of the elements that \<^verbatim>\<open>createModal\<close> does not
  set start empty.
\<close>

definition constructor :: "setting list \<Rightarrow> widget" where
  "constructor overrides =
     init
       \<lparr> options = spread defaults overrides,
         currentImage = None,
         scale = 1,
         isDragging = False,
         startX = 0,
         startY = 0,
         translateX = 0,
         translateY = 0,
         modal_display = DisplayUnset,
         modal_opacity = 1,
         modal_attached = False,
         modalImg_src = [],
         modalImg_cursor = Pointer,
         modalImg_transform = None,
         modalCaption_text = [],
         modalCaption_display = DisplayUnset,
         body_overflow = [],
         overlay_listener = False,
         escape_listener = False,
         zoom_listeners = False,
         clock = 0,
         timers = [] \<rparr>"

subsection \<open>Event listeners\<close>

text \<open>The bodies of the listeners of \<^verbatim>\<open>bindEvents\<close>, one definition each.\<close>

definition on_wheel :: "real \<Rightarrow> widget \<Rightarrow> widget" where
  "on_wheel deltaY s = zoom (if deltaY > 0 then - (1 / 10) else 1 / 10) s"

definition on_mousedown :: "real \<Rightarrow> real \<Rightarrow> widget \<Rightarrow> widget" where
  "on_mousedown clientX clientY s =
     (if scale s > 1
      then s\<lparr>isDragging := True,
             startX := clientX - translateX s,
             startY := clientY - translateY s,
             modalImg_cursor := Grabbing\<rparr>
      else s)"

definition on_mousemove :: "real \<Rightarrow> real \<Rightarrow> widget \<Rightarrow> widget" where
  "on_mousemove clientX clientY s =
     (if isDragging s \<and> scale s > 1
      then updateImageTransform
             (s\<lparr>translateX := clientX - startX s, translateY := clientY - startY s\<rparr>)
      else s)"

definition on_mouseup :: "widget \<Rightarrow> widget" where
  "on_mouseup s =
     (if isDragging s then s\<lparr>isDragging := False, modalImg_cursor := Grab\<rparr> else s)"

definition on_dblclick :: "widget \<Rightarrow> widget" where
  "on_dblclick s = resetZoom s"

definition on_keydown :: "string \<Rightarrow> widget \<Rightarrow> widget" where
  "on_keydown key s = (if key = ''Escape'' \<and> isOpen s then close s else s)"

text \<open>
  A click carries what the DOM computes for it: which element is its target, and the
  result of \<^verbatim>\<open>e.target.closest(selector)\<close>, an image with the answer of
  \<^verbatim>\<open>img.matches(excludeSelector)\<close>, or nothing.
\<close>

datatype target = OnOverlay | OnCloseButton | Elsewhere

definition on_document_click :: "(image \<times> bool) option \<Rightarrow> widget \<Rightarrow> widget" where
  "on_document_click closest s =
     (case closest of
        None \<Rightarrow> s
      | Some (img, matches) \<Rightarrow> (if \<not> isExcluded matches s then open img s else s))"

definition on_overlay_click :: "target \<Rightarrow> widget \<Rightarrow> widget" where
  "on_overlay_click tgt s = (if tgt = OnOverlay then close s else s)"

datatype event =
    Click target "(image \<times> bool) option"
  | KeyDown string
  | ImgWheel real
  | ImgMouseDown real real
  | DocMouseMove real real
  | DocMouseUp
  | ImgDblClick

text \<open>
  An event runs the listeners that were registered for it. A click reaches the close
  button first when that is its target, then the overlay, then the document.
\<close>

fun handle_event :: "event \<Rightarrow> widget \<Rightarrow> widget" where
  "handle_event (Click tgt closest) s =
     (let s1 = (if tgt = OnCloseButton then close s else s);
          s2 = (if overlay_listener s1 then on_overlay_click tgt s1 else s1)
      in on_document_click closest s2)"
| "handle_event (KeyDown key) s = (if escape_listener s then on_keydown key s else s)"
| "handle_event (ImgWheel deltaY) s = (if zoom_listeners s then on_wheel deltaY s else s)"
| "handle_event (ImgMouseDown x y) s = (if zoom_listeners s then on_mousedown x y s else s)"
| "handle_event (DocMouseMove x y) s = (if zoom_listeners s then on_mousemove x y s else s)"
| "handle_event DocMouseUp s = (if zoom_listeners s then on_mouseup s else s)"
| "handle_event ImgDblClick s = (if zoom_listeners s then on_dblclick s else s)"

text \<open>Everything that can happen to an instance: a method call, an event, time passing.\<close>

datatype action =
    CallOpen image
  | CallClose
  | CallZoom real
  | CallResetZoom
  | CallUpdateOptions "setting list"
  | CallDestroy
  | Dispatch event
  | Elapse nat

fun exec :: "action \<Rightarrow> widget \<Rightarrow> widget" where
  "exec (CallOpen img) s = open img s"
| "exec CallClose s = close s"
| "exec (CallZoom delta) s = zoom delta s"
| "exec CallResetZoom s = resetZoom s"
| "exec (CallUpdateOptions overrides) s = updateOptions overrides s"
| "exec CallDestroy s = destroy s"
| "exec (Dispatch e) s = handle_event e s"
| "exec (Elapse dt) s = elapse dt s"

subsection \<open>Predicates and sample inputs used in the statements\<close>

text \<open>Pan is only away from the origin while the image is zoomed.\<close>

definition transform_inv :: "widget \<Rightarrow> bool" where
  "transform_inv s = (scale s = 1 \<longrightarrow> translateX s = 0 \<and> translateY s = 0)"

text \<open>A callback of an earlier \<^verbatim>\<open>close\<close> is still waiting in the timer queue.\<close>

definition hide_pending :: "widget \<Rightarrow> bool" where
  "hide_pending s = (HideAndReset \<in> set (map snd (timers s)))"


definition scroll_suspended :: "widget \<Rightarrow> bool" where
  "scroll_suspended s = (body_overflow s = ''hidden'')"

text \<open>The events of the zoom and pan listeners that the claims on \<^verbatim>\<open>enableZoom\<close> name.\<close>

fun zoom_pan_event :: "event \<Rightarrow> bool" where
  "zoom_pan_event (ImgWheel deltaY) = True"
| "zoom_pan_event (ImgMouseDown x y) = True"
| "zoom_pan_event (DocMouseMove x y) = True"
| "zoom_pan_event ImgDblClick = True"
| "zoom_pan_event e = False"

definition cat :: image where
  "cat = \<lparr>src = ''cat.png'', alt = Some ''cat'', title = None\<rparr>"

text \<open>Open, zoom in one notch, drag by (30, 40), release; and then zoom out one notch.\<close>

definition zoomed_and_panned :: "action list" where
  "zoomed_and_panned =
     [CallOpen cat, Dispatch (ImgWheel (-1)), Dispatch (ImgMouseDown 10 20),
      Dispatch (DocMouseMove 40 60), Dispatch DocMouseUp]"

definition drag_then_zoom_out :: "action list" where
  "drag_then_zoom_out = zoomed_and_panned @ [Dispatch (ImgWheel 1)]"

text \<open>Open, zoom in, start a drag, then switch the \<^verbatim>\<open>enableZoom\<close> option off.\<close>

definition zoomed_then_disabled :: "action list" where
  "zoomed_then_disabled =
     [CallOpen cat, Dispatch (ImgWheel (-1)), Dispatch (ImgMouseDown 10 20),
      Dispatch (DocMouseMove 40 60), CallUpdateOptions [EnableZoom False]]"

definition zoom_pan_attempt :: "event list" where
  "zoom_pan_attempt =
     [ImgWheel (-1), ImgMouseDown 10 20, DocMouseMove 40 60, ImgDblClick]"

text \<open>The modal is hidden, the page scrolls, and the transform is the identity.\<close>

definition closed_at_rest :: "widget \<Rightarrow> bool" where
  "closed_at_rest s =
     (modal_display s = DisplayNone \<and> \<not> scroll_suspended s
      \<and> scale s = 1 \<and> translateX s = 0 \<and> translateY s = 0)"


section \<open>Properties\<close>

lemmas method_defs = open_def close_def zoom_def resetZoom_def updateImageTransform_def
  updateOptions_def destroy_def setTimeout_def

lemmas listener_defs = on_wheel_def on_mousedown_def on_mousemove_def on_mouseup_def
  on_dblclick_def on_keydown_def on_document_click_def on_overlay_click_def

lemmas ctor_defs = constructor_def init_def createModal_def bindEvents_def spread_def
  defaults_def

subsection \<open>What \<^verbatim>\<open>open\<close> does to the transform\<close>

text \<open>
  C1 (as amended). \<^verbatim>\<open>open(image)\<close> does not touch the transform: scale, translateX and
  translateY after the call are what they were before it. They are the identity after
  \<^verbatim>\<open>open\<close> exactly when they were before, as on a fresh instance or once the timer of a
  \<^verbatim>\<open>close\<close> has run \<^verbatim>\<open>resetZoom\<close>.
\<close>

theorem open_keeps_transform:
  "scale (open img s) = scale s
   \<and> translateX (open img s) = translateX s
   \<and> translateY (open img s) = translateY s"
  by (simp add: method_defs Let_def)

text \<open>
  C1 as stated fails: open an image, turn the wheel up once, and open an image again
  while the modal is showing. The scale is still 11/10.
\<close>

theorem open_resets_counterexample:
  "\<not> (scale (open cat (handle_event (ImgWheel (-1)) (open cat (constructor [])))) = 1
      \<and> translateX (open cat (handle_event (ImgWheel (-1)) (open cat (constructor [])))) = 0
      \<and> translateY (open cat (handle_event (ImgWheel (-1)) (open cat (constructor [])))) = 0)"
  by (simp add: method_defs listener_defs ctor_defs Let_def)

subsection \<open>The scale stays in its range\<close>

lemma zoom_options: "options (zoom d s) = options s"
  by (simp add: zoom_def updateImageTransform_def Let_def)

lemma zoom_scale_bounds:
  "1 \<le> maxZoom (options s) \<Longrightarrow> 1 \<le> scale s \<Longrightarrow> scale s \<le> maxZoom (options s)
   \<Longrightarrow> 1 \<le> scale (zoom d s) \<and> scale (zoom d s) \<le> maxZoom (options s)"
  by (auto simp: zoom_def updateImageTransform_def Let_def)

lemma fold_zoom_bounds:
  "1 \<le> maxZoom (options s) \<Longrightarrow> 1 \<le> scale s \<Longrightarrow> scale s \<le> maxZoom (options s)
   \<Longrightarrow> 1 \<le> scale (fold zoom ds s) \<and> scale (fold zoom ds s) \<le> maxZoom (options s)"
proof (induction ds arbitrary: s)
  case Nil
  then show ?case by simp
next
  case (Cons d ds)
  from zoom_scale_bounds [OF Cons.prems, of d]
  have "1 \<le> scale (zoom d s)" "scale (zoom d s) \<le> maxZoom (options (zoom d s))"
    by (simp_all add: zoom_options)
  moreover have "1 \<le> maxZoom (options (zoom d s))"
    using Cons.prems by (simp add: zoom_options)
  ultimately show ?case
    using Cons.IH [of "zoom d s"] by (simp add: zoom_options)
qed

text \<open>
  C2. With \<open>maxZoom \<ge> 1\<close>, starting from scale 1, any sequence of calls of \<^verbatim>\<open>zoom\<close>
  leaves \<open>1 \<le> scale \<le> maxZoom\<close>, whether zoom is enabled or not.
\<close>

theorem zoom_clamped:
  assumes "1 \<le> maxZoom (options s)" and "scale s = 1"
  shows "1 \<le> scale (fold zoom ds s) \<and> scale (fold zoom ds s) \<le> maxZoom (options s)"
  using fold_zoom_bounds [of s ds] assms by simp

text \<open>The scenario of the specification: \<open>maxZoom = 3\<close> and 25 steps of 0.1.\<close>

theorem zoom_clamped_witness:
  "1 \<le> maxZoom (options (constructor [MaxZoom 3])) \<and> scale (constructor [MaxZoom 3]) = 1
   \<and> 1 \<le> scale (fold zoom (replicate 25 (1 / 10)) (constructor [MaxZoom 3]))
   \<and> scale (fold zoom (replicate 25 (1 / 10)) (constructor [MaxZoom 3])) \<le> 3"
proof -
  have a: "1 \<le> maxZoom (options (constructor [MaxZoom 3]))" by (simp add: ctor_defs)
  have b: "scale (constructor [MaxZoom 3]) = 1" by (simp add: ctor_defs)
  have c: "maxZoom (options (constructor [MaxZoom 3])) = 3" by (simp add: ctor_defs)
  show ?thesis using zoom_clamped [OF a b, of "replicate 25 (1 / 10)"] a b c by simp
qed

subsection \<open>No pan at scale 1\<close>

lemma transform_inv_zoom: "transform_inv s \<Longrightarrow> transform_inv (zoom d s)"
  by (auto simp: transform_inv_def zoom_def updateImageTransform_def Let_def)

lemma transform_inv_resetZoom: "transform_inv (resetZoom s)"
  by (simp add: transform_inv_def resetZoom_def updateImageTransform_def)

lemma transform_inv_open: "transform_inv s \<Longrightarrow> transform_inv (open img s)"
  by (simp add: transform_inv_def method_defs Let_def)

lemma transform_inv_close: "transform_inv s \<Longrightarrow> transform_inv (close s)"
  by (simp add: transform_inv_def close_def setTimeout_def)

lemma transform_inv_run_callback: "transform_inv s \<Longrightarrow> transform_inv (run_callback cb s)"
  by (cases cb) (simp_all add: transform_inv_def resetZoom_def updateImageTransform_def)

lemma transform_inv_callbacks:
  "transform_inv s \<Longrightarrow> transform_inv (fold run_callback cbs s)"
  by (induction cbs arbitrary: s) (simp_all add: transform_inv_run_callback)

lemma transform_inv_elapse: "transform_inv s \<Longrightarrow> transform_inv (elapse dt s)"
  unfolding elapse_def Let_def
  by (rule transform_inv_callbacks) (simp add: transform_inv_def)

lemma transform_inv_handle_event: "transform_inv s \<Longrightarrow> transform_inv (handle_event e s)"
proof (cases e)
  case (Click tgt closest)
  assume "transform_inv s"
  then show ?thesis unfolding Click
    by (auto simp: Let_def on_overlay_click_def on_document_click_def
          transform_inv_close transform_inv_open split: option.splits)
next
  case (KeyDown key)
  assume "transform_inv s"
  then show ?thesis unfolding KeyDown by (simp add: on_keydown_def transform_inv_close)
next
  case (ImgWheel dy)
  assume "transform_inv s"
  then show ?thesis unfolding ImgWheel by (simp add: on_wheel_def transform_inv_zoom)
next
  case (ImgMouseDown x y)
  assume "transform_inv s"
  then show ?thesis unfolding ImgMouseDown by (simp add: on_mousedown_def transform_inv_def)
next
  case (DocMouseMove x y)
  assume "transform_inv s"
  then show ?thesis unfolding DocMouseMove
    by (simp add: on_mousemove_def transform_inv_def updateImageTransform_def)
next
  case DocMouseUp
  assume "transform_inv s"
  then show ?thesis unfolding DocMouseUp by (simp add: on_mouseup_def transform_inv_def)
next
  case ImgDblClick
  assume "transform_inv s"
  then show ?thesis unfolding ImgDblClick by (simp add: on_dblclick_def transform_inv_resetZoom)
qed

lemma transform_inv_exec: "transform_inv s \<Longrightarrow> transform_inv (exec a s)"
  by (cases a)
    (simp_all add: transform_inv_open transform_inv_close transform_inv_zoom
       transform_inv_resetZoom transform_inv_handle_event transform_inv_elapse,
     simp_all add: transform_inv_def updateOptions_def destroy_def Let_def)

lemma transform_inv_run: "transform_inv s \<Longrightarrow> transform_inv (fold exec acts s)"
  by (induction acts arbitrary: s) (simp_all add: transform_inv_exec)

lemma transform_inv_constructor: "transform_inv (constructor overrides)"
  by (simp add: transform_inv_def constructor_def init_def createModal_def bindEvents_def)

text \<open>
  C3. In every state an instance reaches from its construction, by any sequence of
  method calls (\<^verbatim>\<open>zoom\<close>, \<^verbatim>\<open>resetZoom\<close>, \<^verbatim>\<open>open\<close>, \<^verbatim>\<open>close\<close>, \<^verbatim>\<open>updateOptions\<close>, \<^verbatim>\<open>destroy\<close>),
  events (wheel, mouse down, move and up, double click, clicks, keys) and timers, if the
  scale is 1 then translateX and translateY are 0.
\<close>

theorem pan_only_when_zoomed:
  "scale (fold exec acts (constructor overrides)) = 1 \<longrightarrow>
     translateX (fold exec acts (constructor overrides)) = 0
     \<and> translateY (fold exec acts (constructor overrides)) = 0"
  using transform_inv_run [OF transform_inv_constructor, of acts overrides]
  by (simp add: transform_inv_def)

text \<open>A run that pans the zoomed image and then zooms back out to scale 1.\<close>

theorem pan_only_when_zoomed_witness:
  "scale (fold exec drag_then_zoom_out (constructor [])) = 1
   \<and> translateX (fold exec drag_then_zoom_out (constructor [])) = 0
   \<and> translateY (fold exec drag_then_zoom_out (constructor [])) = 0"
proof -
  have "scale (fold exec drag_then_zoom_out (constructor [])) = 1"
    by (simp add: drag_then_zoom_out_def zoomed_and_panned_def method_defs listener_defs
          ctor_defs Let_def)
  then show ?thesis
    using pan_only_when_zoomed [of drag_then_zoom_out "[]"] by simp
qed

subsection \<open>Timers and \<^verbatim>\<open>isOpen\<close>\<close>













subsection \<open>The zoom and pan listeners are registered at construction only\<close>

lemma callbacks_zoom_listeners:
  "zoom_listeners (fold run_callback cbs s) = zoom_listeners s"
proof (induction cbs arbitrary: s)
  case Nil
  show ?case by simp
next
  case (Cons cb cbs)
  show ?case by (cases cb) (simp_all add: Cons.IH resetZoom_def updateImageTransform_def)
qed

lemma zoom_listeners_handle_event: "zoom_listeners (handle_event e s) = zoom_listeners s"
  by (cases e)
    (auto simp: method_defs listener_defs Let_def isExcluded_def split: option.splits)

lemma zoom_listeners_exec: "zoom_listeners (exec a s) = zoom_listeners s"
  by (cases a)
    (simp_all add: method_defs Let_def zoom_listeners_handle_event elapse_def
       callbacks_zoom_listeners)

lemma zoom_listeners_run: "zoom_listeners (fold exec acts s) = zoom_listeners s"
  by (induction acts arbitrary: s) (simp_all add: zoom_listeners_exec)

lemma zoom_listeners_constructor:
  "zoom_listeners (constructor overrides) = enableZoom (options (constructor overrides))"
  by (simp add: constructor_def init_def createModal_def bindEvents_def)

text \<open>
  C5 (as amended). On an instance constructed with \<^verbatim>\<open>enableZoom\<close> true, in every state it
  reaches, whatever the scale and whatever \<^verbatim>\<open>enableZoom\<close> has become since, a double click
  on the image runs \<^verbatim>\<open>resetZoom()\<close>: the scale is 1 and translateX and translateY are 0
  afterwards.
\<close>

theorem dblclick_resets_when_bound:
  assumes "enableZoom (options (constructor overrides))"
    and "s = fold exec acts (constructor overrides)"
  shows "handle_event ImgDblClick s = resetZoom s
         \<and> scale (handle_event ImgDblClick s) = 1
         \<and> translateX (handle_event ImgDblClick s) = 0
         \<and> translateY (handle_event ImgDblClick s) = 0"
proof -
  have "zoom_listeners s"
    using assms by (simp add: zoom_listeners_run zoom_listeners_constructor)
  then show ?thesis
    by (simp add: on_dblclick_def resetZoom_def updateImageTransform_def)
qed

text \<open>A zoomed image whose instance has had \<^verbatim>\<open>enableZoom\<close> switched off is still reset.\<close>

theorem dblclick_resets_when_bound_witness:
  "enableZoom (options (constructor []))
   \<and> \<not> enableZoom (options (fold exec zoomed_then_disabled (constructor [])))
   \<and> scale (fold exec zoomed_then_disabled (constructor [])) = 11 / 10
   \<and> scale (handle_event ImgDblClick (fold exec zoomed_then_disabled (constructor []))) = 1
   \<and> translateX (handle_event ImgDblClick (fold exec zoomed_then_disabled (constructor []))) = 0
   \<and> translateY (handle_event ImgDblClick (fold exec zoomed_then_disabled (constructor []))) = 0"
proof -
  have a: "enableZoom (options (constructor []))" by (simp add: ctor_defs)
  have b: "\<not> enableZoom (options (fold exec zoomed_then_disabled (constructor [])))"
    by (simp add: zoomed_then_disabled_def method_defs listener_defs ctor_defs Let_def)
  have c: "scale (fold exec zoomed_then_disabled (constructor [])) = 11 / 10"
    by (simp add: zoomed_then_disabled_def method_defs listener_defs ctor_defs Let_def)
  show ?thesis
    using dblclick_resets_when_bound [OF a refl, of zoomed_then_disabled] a b c
    by blast
qed

text \<open>
  C5 as stated fails on an instance constructed with \<^verbatim>\<open>enableZoom: false\<close>, which has no
  double-click listener: enable zoom with \<^verbatim>\<open>updateOptions\<close>, call \<^verbatim>\<open>zoom(0.5)\<close>, double
  click. The scale is still 3/2.
\<close>

theorem dblclick_always_resets_counterexample:
  "\<not> (scale (handle_event ImgDblClick
         (zoom (1 / 2) (updateOptions [EnableZoom True] (constructor [EnableZoom False])))) = 1
      \<and> translateX (handle_event ImgDblClick
         (zoom (1 / 2) (updateOptions [EnableZoom True] (constructor [EnableZoom False])))) = 0
      \<and> translateY (handle_event ImgDblClick
         (zoom (1 / 2) (updateOptions [EnableZoom True] (constructor [EnableZoom False])))) = 0)"
  by (simp add: method_defs listener_defs ctor_defs Let_def)

subsection \<open>Dragging\<close>

text \<open>
  C6. At a scale above 1, the mouse-down listener at \<open>(x0, y0)\<close> sets the dragging flag and
  records the anchor \<open>(x0 - translateX, y0 - translateY)\<close>, and the mouse-move listener at
  \<open>(x, y)\<close> that follows sets translateX to \<open>x\<close> minus the anchor's x and translateY to
  \<open>y\<close> minus the anchor's y.
\<close>

theorem drag_follows_pointer:
  assumes "scale s > 1"
  shows "isDragging (on_mousedown x0 y0 s)
         \<and> startX (on_mousedown x0 y0 s) = x0 - translateX s
         \<and> startY (on_mousedown x0 y0 s) = y0 - translateY s
         \<and> translateX (on_mousemove x y (on_mousedown x0 y0 s)) = x - (x0 - translateX s)
         \<and> translateY (on_mousemove x y (on_mousedown x0 y0 s)) = y - (y0 - translateY s)"
  using assms by (simp add: on_mousedown_def on_mousemove_def updateImageTransform_def)

text \<open>At scale 3/2: press at (10, 20), move to (40, 60); the image has moved by (30, 40).\<close>

theorem drag_follows_pointer_witness:
  "scale (zoom (1 / 2) (constructor [])) > 1
   \<and> translateX (on_mousemove 40 60 (on_mousedown 10 20 (zoom (1 / 2) (constructor [])))) = 30
   \<and> translateY (on_mousemove 40 60 (on_mousedown 10 20 (zoom (1 / 2) (constructor [])))) = 40"
proof -
  have a: "scale (zoom (1 / 2) (constructor [])) > 1"
    by (simp add: method_defs ctor_defs Let_def)
  have b: "translateX (zoom (1 / 2) (constructor [])) = 0"
          "translateY (zoom (1 / 2) (constructor [])) = 0"
    by (simp_all add: method_defs ctor_defs Let_def)
  show ?thesis using drag_follows_pointer [OF a, of 10 20 40 60] a b by simp
qed

subsection \<open>The wheel while zoom is disabled\<close>

lemma wheel_disabled: "\<not> enableZoom (options s) \<Longrightarrow> handle_event (ImgWheel dy) s = s"
  by (simp add: on_wheel_def zoom_def)

lemma wheels_disabled:
  "\<not> enableZoom (options s) \<Longrightarrow> fold handle_event (map ImgWheel dys) s = s"
  by (induction dys) (simp_all add: wheel_disabled del: handle_event.simps)

text \<open>
  C7. After \<^verbatim>\<open>updateOptions({enableZoom: false})\<close>, in any state of any instance, a sequence
  of wheel events changes nothing at all, and the scale is the one before the call.
\<close>

theorem wheel_ignored_when_zoom_disabled:
  "fold handle_event (map ImgWheel deltaYs) (updateOptions [EnableZoom False] s)
     = updateOptions [EnableZoom False] s
   \<and> scale (fold handle_event (map ImgWheel deltaYs) (updateOptions [EnableZoom False] s))
     = scale s"
proof -
  have "\<not> enableZoom (options (updateOptions [EnableZoom False] s))"
    by (simp add: updateOptions_def spread_def)
  then show ?thesis by (simp add: wheels_disabled) (simp add: updateOptions_def)
qed

subsection \<open>Closing a closed modal\<close>

lemma closed_at_rest_callback: "closed_at_rest s \<Longrightarrow> closed_at_rest (run_callback cb s)"
  by (cases cb)
    (simp_all add: closed_at_rest_def scroll_suspended_def resetZoom_def updateImageTransform_def)

lemma closed_at_rest_callbacks:
  "closed_at_rest s \<Longrightarrow> closed_at_rest (fold run_callback cbs s)"
  by (induction cbs arbitrary: s) (simp_all add: closed_at_rest_callback)

lemma closed_at_rest_elapse: "closed_at_rest s \<Longrightarrow> closed_at_rest (elapse dt s)"
  unfolding elapse_def Let_def
  by (rule closed_at_rest_callbacks) (simp add: closed_at_rest_def scroll_suspended_def)

lemma closed_at_rest_elapses: "closed_at_rest s \<Longrightarrow> closed_at_rest (fold elapse dts s)"
  by (induction dts arbitrary: s) (simp_all add: closed_at_rest_elapse)

lemma closed_at_rest_close: "closed_at_rest s \<Longrightarrow> closed_at_rest (close s)"
  by (simp add: closed_at_rest_def scroll_suspended_def close_def setTimeout_def)

text \<open>
  C8. When the modal is hidden, the page scrolls and the transform is the identity,
  \<^verbatim>\<open>close()\<close> followed by any passing of time, before, until and after its timer fires,
  leaves the visibility, the suspension of scrolling, the scale, translateX and
  translateY as they were before the call.
\<close>

theorem close_when_closed_is_harmless:
  assumes "modal_display s = DisplayNone" and "\<not> scroll_suspended s"
    and "scale s = 1" and "translateX s = 0" and "translateY s = 0"
  shows "modal_display (fold elapse dts (close s)) = modal_display s
         \<and> scroll_suspended (fold elapse dts (close s)) = scroll_suspended s
         \<and> scale (fold elapse dts (close s)) = scale s
         \<and> translateX (fold elapse dts (close s)) = translateX s
         \<and> translateY (fold elapse dts (close s)) = translateY s"
proof -
  have "closed_at_rest s" using assms by (simp add: closed_at_rest_def)
  then have "closed_at_rest (fold elapse dts (close s))"
    by (intro closed_at_rest_elapses closed_at_rest_close)
  then show ?thesis using assms by (simp add: closed_at_rest_def)
qed

text \<open>A fresh instance is closed; 300 ms after \<^verbatim>\<open>close()\<close> its timer has run.\<close>

theorem close_when_closed_is_harmless_witness:
  "modal_display (constructor []) = DisplayNone \<and> \<not> scroll_suspended (constructor [])
   \<and> scale (constructor []) = 1 \<and> translateX (constructor []) = 0
   \<and> translateY (constructor []) = 0
   \<and> \<not> hide_pending (fold elapse [300] (close (constructor [])))
   \<and> modal_display (fold elapse [300] (close (constructor []))) = DisplayNone
   \<and> \<not> scroll_suspended (fold elapse [300] (close (constructor [])))
   \<and> scale (fold elapse [300] (close (constructor []))) = 1
   \<and> translateX (fold elapse [300] (close (constructor []))) = 0
   \<and> translateY (fold elapse [300] (close (constructor []))) = 0"
proof -
  have a: "modal_display (constructor []) = DisplayNone" by (simp add: ctor_defs)
  have b: "\<not> scroll_suspended (constructor [])" by (simp add: scroll_suspended_def ctor_defs)
  have c: "scale (constructor []) = 1" by (simp add: ctor_defs)
  have d: "translateX (constructor []) = 0" by (simp add: ctor_defs)
  have e: "translateY (constructor []) = 0" by (simp add: ctor_defs)
  have f: "\<not> hide_pending (fold elapse [300] (close (constructor [])))"
    by (simp add: hide_pending_def elapse_def method_defs ctor_defs Let_def)
  show ?thesis
    using close_when_closed_is_harmless [OF a b c d e, of "[300]"] a b c d e f by simp
qed

subsection \<open>Enabling zoom after construction\<close>

lemma unbound_event: "\<not> zoom_listeners s \<Longrightarrow> zoom_pan_event e \<Longrightarrow> handle_event e s = s"
  by (cases e) simp_all

lemma unbound_events:
  "\<not> zoom_listeners s \<Longrightarrow> list_all zoom_pan_event es \<Longrightarrow> fold handle_event es s = s"
  by (induction es) (simp_all add: unbound_event del: handle_event.simps)

text \<open>
  C9. On an instance constructed with \<^verbatim>\<open>enableZoom: false\<close>, after any history,
  \<^verbatim>\<open>updateOptions({enableZoom: true})\<close> sets the option, and still every later sequence of
  wheel, mouse-down, mouse-move and double-click events leaves scale, translateX,
  translateY and isDragging unchanged: their listeners were never registered.
\<close>

theorem late_enableZoom_binds_nothing:
  assumes "\<not> enableZoom (options (constructor overrides))"
    and "s = updateOptions [EnableZoom True] (fold exec acts (constructor overrides))"
    and "list_all zoom_pan_event es"
  shows "enableZoom (options s)
         \<and> scale (fold handle_event es s) = scale s
         \<and> translateX (fold handle_event es s) = translateX s
         \<and> translateY (fold handle_event es s) = translateY s
         \<and> isDragging (fold handle_event es s) = isDragging s"
proof -
  have "\<not> zoom_listeners (fold exec acts (constructor overrides))"
    using assms(1) by (simp add: zoom_listeners_run zoom_listeners_constructor)
  then have "\<not> zoom_listeners s"
    using assms(2) by (simp add: updateOptions_def)
  then have "fold handle_event es s = s"
    using assms(3) by (rule unbound_events)
  moreover have "enableZoom (options s)"
    using assms(2) by (simp add: updateOptions_def spread_def)
  ultimately show ?thesis by simp
qed

text \<open>Wheel, press, move and double click on an instance that had zoom enabled late.\<close>

theorem late_enableZoom_binds_nothing_witness:
  "\<not> enableZoom (options (constructor [EnableZoom False]))
   \<and> list_all zoom_pan_event zoom_pan_attempt
   \<and> enableZoom (options (updateOptions [EnableZoom True]
        (fold exec [CallOpen cat] (constructor [EnableZoom False]))))
   \<and> scale (fold handle_event zoom_pan_attempt (updateOptions [EnableZoom True]
        (fold exec [CallOpen cat] (constructor [EnableZoom False])))) = 1
   \<and> \<not> isDragging (fold handle_event zoom_pan_attempt (updateOptions [EnableZoom True]
        (fold exec [CallOpen cat] (constructor [EnableZoom False]))))"
proof -
  have a: "\<not> enableZoom (options (constructor [EnableZoom False]))" by (simp add: ctor_defs)
  have b: "list_all zoom_pan_event zoom_pan_attempt" by (simp add: zoom_pan_attempt_def)
  have c: "scale (updateOptions [EnableZoom True]
        (fold exec [CallOpen cat] (constructor [EnableZoom False]))) = 1"
    "\<not> isDragging (updateOptions [EnableZoom True]
        (fold exec [CallOpen cat] (constructor [EnableZoom False])))"
    by (simp_all add: method_defs ctor_defs Let_def)
  show ?thesis
    using late_enableZoom_binds_nothing [OF a refl b, of "[CallOpen cat]"] a b c
    by (simp del: handle_event.simps)
qed

subsection \<open>What \<^verbatim>\<open>zoom\<close> changes\<close>

text \<open>
  C10. For every state and every delta, \<^verbatim>\<open>zoom(delta)\<close> leaves isDragging and the drag
  anchor alone. translateX and translateY are unchanged whenever the scale after the call
  is not 1. When it is 1 they are 0 after the call: set to 0 by the call when zoom is
  enabled, and already 0 when it is disabled, in every state where pan is only away from
  the origin while zoomed, as in all states an instance reaches. Apart from scale,
  translateX, translateY and the transform style that is rendered from them, no field of
  the state changes.
\<close>

theorem zoom_frame:
  "isDragging (zoom delta s) = isDragging s
   \<and> startX (zoom delta s) = startX s
   \<and> startY (zoom delta s) = startY s
   \<and> (scale (zoom delta s) \<noteq> 1 \<longrightarrow>
        translateX (zoom delta s) = translateX s \<and> translateY (zoom delta s) = translateY s)
   \<and> (scale (zoom delta s) = 1 \<and> (enableZoom (options s) \<or> transform_inv s) \<longrightarrow>
        translateX (zoom delta s) = 0 \<and> translateY (zoom delta s) = 0)
   \<and> (zoom delta s)\<lparr>scale := scale s, translateX := translateX s, translateY := translateY s,
        modalImg_transform := modalImg_transform s\<rparr> = s"
  by (auto simp: zoom_def updateImageTransform_def transform_inv_def Let_def)

text \<open>
  From scale 11/10 with the image panned by (30, 40): zooming out reaches scale 1 and
  centres the image, zooming in keeps the pan.
\<close>

theorem zoom_frame_witness:
  "scale (zoom (- (1 / 10)) (fold exec zoomed_and_panned (constructor []))) = 1
   \<and> translateX (zoom (- (1 / 10)) (fold exec zoomed_and_panned (constructor []))) = 0
   \<and> translateY (zoom (- (1 / 10)) (fold exec zoomed_and_panned (constructor []))) = 0
   \<and> scale (zoom (1 / 10) (fold exec zoomed_and_panned (constructor []))) \<noteq> 1
   \<and> translateX (zoom (1 / 10) (fold exec zoomed_and_panned (constructor []))) = 30
   \<and> translateY (zoom (1 / 10) (fold exec zoomed_and_panned (constructor []))) = 40"
proof -
  have a: "enableZoom (options (fold exec zoomed_and_panned (constructor [])))"
    by (simp add: zoomed_and_panned_def method_defs listener_defs ctor_defs Let_def)
  have b: "translateX (fold exec zoomed_and_panned (constructor [])) = 30"
    "translateY (fold exec zoomed_and_panned (constructor [])) = 40"
    by (simp_all add: zoomed_and_panned_def method_defs listener_defs ctor_defs Let_def)
  have c: "scale (zoom (- (1 / 10)) (fold exec zoomed_and_panned (constructor []))) = 1"
    by (simp add: zoomed_and_panned_def method_defs listener_defs ctor_defs Let_def)
  have d: "scale (zoom (1 / 10) (fold exec zoomed_and_panned (constructor []))) \<noteq> 1"
    by (simp add: zoomed_and_panned_def method_defs listener_defs ctor_defs Let_def)
  show ?thesis
    using zoom_frame [of "- (1 / 10)" "fold exec zoomed_and_panned (constructor [])"]
      zoom_frame [of "1 / 10" "fold exec zoomed_and_panned (constructor [])"] a b c d
    by simp
qed

end
